theory Spec2Isabelle
  imports Complex_Main "HOL-Library.Sublist"
begin

section \<open>Data model of \<^verbatim>\<open>geofencing_api.py\<close>\<close>

text \<open>
  Python floats are idealised as real numbers. A geometry is one of the shapes the
  repository builds (\<^verbatim>\<open>Point\<close>, \<^verbatim>\<open>Polygon(coords)\<close> in \<^verbatim>\<open>extract_prisons.py\<close>) or that a
  buffer can return (an empty geometry, a multi-part polygon). Coordinates are
  \<open>(x, y)\<close>, that is longitude first.
\<close>

datatype geom =
    GEmpty
  | GPoint real real
  | GPolygon "(real \<times> real) list"
  | GMultiPolygon "(real \<times> real) list list"

text \<open>A cell of an attribute column (\<^verbatim>\<open>name\<close>, \<^verbatim>\<open>operator\<close>, \<^verbatim>\<open>addr:state\<close>, ...).\<close>

datatype val = VNull | VStr string | VNum real

text \<open>
  The program never computes on geometries itself: it calls shapely and geopandas, and
  Python's \<^verbatim>\<open>float\<close> on strings. These operations are not code of the repository, so
  they are parameters of the model:
  \<^item> \<open>contains e g p\<close> is \<^verbatim>\<open>g.contains(p)\<close>;
  \<^item> \<open>buffer e g d\<close> is \<^verbatim>\<open>g.buffer(d)\<close>;
  \<^item> \<open>to_crs e src dst g\<close> reprojects one geometry from EPSG code \<open>src\<close> to \<open>dst\<close>;
  \<^item> \<open>distance e g p\<close> is \<^verbatim>\<open>g.distance(p)\<close>, \<open>None\<close> standing for NaN (the distance
    to an empty or missing geometry);
  \<^item> \<open>float_of_str e s\<close> is \<^verbatim>\<open>float(s)\<close> on a string, \<open>None\<close> standing for ValueError.
\<close>

record ext =
  contains :: "geom \<Rightarrow> geom \<Rightarrow> bool"
  buffer :: "geom \<Rightarrow> real \<Rightarrow> geom"
  to_crs :: "nat \<Rightarrow> nat \<Rightarrow> geom \<Rightarrow> geom"
  distance :: "geom \<Rightarrow> geom \<Rightarrow> real option"
  float_of_str :: "string \<Rightarrow> real option"

text \<open>
  A row of the GeoDataFrame read from the prisons file. The loader always writes the
  \<^verbatim>\<open>osm_id\<close> column, so it is a field; every other attribute is looked up by name, as
  \<^verbatim>\<open>prison.get(key, default)\<close> does. \<open>geometry\<close> is the active geometry column.
\<close>

record feature =
  osm_id :: val
  columns :: "(string \<times> val) list"
  geometry :: geom

text \<open>A row after \<^verbatim>\<open>_create_prison_zones\<close> has added the \<^verbatim>\<open>zone\<close> column.\<close>

record zone_row = feature +
  zone :: geom

text \<open>A GeoDataFrame: its coordinate reference system (an EPSG code) and its rows.\<close>

record 'r gdf =
  crs :: nat
  rows :: "'r list"

text \<open>The attributes of a \<^verbatim>\<open>PrisonGeofencing\<close> object.\<close>

record geofencing =
  prisons_gdf :: "feature gdf"
  buffer_meters :: int
  prisons_metric :: "zone_row gdf"
  prisons_zones :: "zone_row gdf"

datatype risk = HIGH | LOW

datatype action = BLOCK | ALLOW

type_synonym timestamp = string

record prison_info =
  info_osm_id :: val
  info_name :: val
  info_operator :: val
  info_state :: val
  info_city :: val

record check_result =
  inside_prison :: bool
  risk_level :: risk
  action :: action
  prison_info :: "prison_info option"
  latitude :: real
  longitude :: real
  timestamp :: timestamp

section \<open>Loading: \<^verbatim>\<open>__init__\<close> and \<^verbatim>\<open>_create_prison_zones\<close>\<close>

text \<open>
  \<^verbatim>\<open>GeoDataFrame.to_crs\<close> reprojects the active geometry column and leaves every other
  column as it is.
\<close>

definition gdf_to_crs :: "ext \<Rightarrow> nat \<Rightarrow> ('a feature_scheme) gdf \<Rightarrow> ('a feature_scheme) gdf" where
  "gdf_to_crs e epsg df =
     \<lparr>crs = epsg,
      rows = map (\<lambda>r. r\<lparr>geometry := to_crs e (crs df) epsg (geometry r)\<rparr>) (rows df)\<rparr>"

text \<open>
  \<^verbatim>\<open>self.prisons_metric['zone'] = self.prisons_metric.geometry.buffer(-self.buffer_meters)\<close>:
  every row gets the buffer of its own geometry, whatever its shape. The frame
  \<^verbatim>\<open>prisons_zones\<close> is then \<^verbatim>\<open>prisons_metric.to_crs(epsg=4326)\<close>: its geometry column goes
  back to EPSG:4326, and its \<^verbatim>\<open>zone\<close> column, not being the active geometry column, keeps
  the values the buffer gave it.
\<close>

definition add_zone :: "ext \<Rightarrow> int \<Rightarrow> feature \<Rightarrow> zone_row" where
  "add_zone e m r =
     \<lparr>osm_id = osm_id r, columns = columns r, geometry = geometry r,
      zone = buffer e (geometry r) (- real_of_int m)\<rparr>"

definition create_prison_zones :: "ext \<Rightarrow> int \<Rightarrow> feature gdf \<Rightarrow> zone_row gdf \<times> zone_row gdf" where
  "create_prison_zones e m metric =
     (let with_zone = \<lparr>crs = crs metric, rows = map (add_zone e m) (rows metric)\<rparr>
      in (with_zone, gdf_to_crs e 4326 with_zone))"

definition init :: "ext \<Rightarrow> feature gdf \<Rightarrow> int \<Rightarrow> geofencing" where
  "init e file m =
     (let metric = gdf_to_crs e 3857 file;
          (with_zone, zones) = create_prison_zones e m metric
      in \<lparr>prisons_gdf = file, buffer_meters = m,
          prisons_metric = with_zone, prisons_zones = zones\<rparr>)"

section \<open>Queries: \<^verbatim>\<open>check_location\<close> and \<^verbatim>\<open>batch_check\<close>\<close>

text \<open>
  \<^verbatim>\<open>prison.get(key, default)\<close> on a row. The default name of the source has two
  letters outside ASCII; they are written as their UTF-8 bytes.
\<close>

definition row_get :: "(string \<times> val) list \<Rightarrow> string \<Rightarrow> val \<Rightarrow> val" where
  "row_get cols key dflt = (case map_of cols key of Some v \<Rightarrow> v | None \<Rightarrow> dflt)"

definition info_of :: "zone_row \<Rightarrow> prison_info" where
  "info_of prison =
     \<lparr>info_osm_id = osm_id prison,
      info_name = row_get (columns prison) ''name''
        (VStr (''Pris'' @ [CHR 0xC3, CHR 0xA3] @ ''o n'' @ [CHR 0xC3, CHR 0xA3] @ ''o identificada'')),
      info_operator = row_get (columns prison) ''operator'' (VStr ''N/A''),
      info_state = row_get (columns prison) ''addr:state'' (VStr ''N/A''),
      info_city = row_get (columns prison) ''addr:city'' (VStr ''N/A'')\<rparr>"

definition inside_result :: "zone_row \<Rightarrow> real \<Rightarrow> real \<Rightarrow> timestamp \<Rightarrow> check_result" where
  "inside_result prison lat lon now =
     \<lparr>inside_prison = True, risk_level = HIGH, action = BLOCK,
      prison_info = Some (info_of prison),
      latitude = lat, longitude = lon, timestamp = now\<rparr>"

definition outside_result :: "real \<Rightarrow> real \<Rightarrow> timestamp \<Rightarrow> check_result" where
  "outside_result lat lon now =
     \<lparr>inside_prison = False, risk_level = LOW, action = ALLOW,
      prison_info = None,
      latitude = lat, longitude = lon, timestamp = now\<rparr>"

text \<open>
  The loop \<^verbatim>\<open>for idx, prison in self.prisons_zones.iterrows()\<close>: rows are visited in
  frame order and the first row whose zone contains the point returns.
\<close>

fun scan_zones :: "ext \<Rightarrow> zone_row list \<Rightarrow> real \<Rightarrow> real \<Rightarrow> timestamp \<Rightarrow> check_result" where
  "scan_zones e [] lat lon now = outside_result lat lon now"
| "scan_zones e (prison # rest) lat lon now =
     (if contains e (zone prison) (GPoint lon lat)
      then inside_result prison lat lon now
      else scan_zones e rest lat lon now)"

text \<open>
  \<open>now\<close> is the reading of \<^verbatim>\<open>datetime.now(timezone.utc)\<close> taken by this call. The method
  has no check on the range of \<open>lat\<close> and \<open>lon\<close>.
\<close>

definition check_location :: "ext \<Rightarrow> geofencing \<Rightarrow> timestamp \<Rightarrow> real \<Rightarrow> real \<Rightarrow> check_result" where
  "check_location e self now lat lon = scan_zones e (rows (prisons_zones self)) lat lon now"

text \<open>
  \<^verbatim>\<open>batch_check\<close>: one \<^verbatim>\<open>check_location\<close> per element, appended in order. The clock is
  read once per call: the call for element \<open>i\<close> sees reading \<open>clock (tick + i)\<close>.
\<close>

fun batch_check :: "ext \<Rightarrow> geofencing \<Rightarrow> (nat \<Rightarrow> timestamp) \<Rightarrow> nat \<Rightarrow> (real \<times> real) list \<Rightarrow> check_result list" where
  "batch_check e self clock tick [] = []"
| "batch_check e self clock tick ((lat, lon) # locations) =
     check_location e self (clock tick) lat lon # batch_check e self clock (Suc tick) locations"

section \<open>Queries: \<^verbatim>\<open>get_nearest_prison\<close>\<close>

datatype exn = ValueError | TypeError | KeyError | IndexError | OverflowError

text \<open>
  \<^verbatim>\<open>round(x, n)\<close> on the idealised reals: the nearest multiple of \<open>10\<^sup>-\<^sup>n\<close>, a tie going
  to the even one.
\<close>

definition py_round :: "nat \<Rightarrow> real \<Rightarrow> real" where
  "py_round n x =
     (let s = x * 10 ^ n; f = \<lfloor>s\<rfloor>; r = s - of_int f
      in (if r < 1 / 2 then of_int f
          else if 1 / 2 < r then of_int (f + 1)
          else if even f then of_int f else of_int (f + 1)) / 10 ^ n)"

text \<open>\<^verbatim>\<open>Series.min()\<close>: NaN entries are skipped; NaN (here \<open>None\<close>) when nothing is left.\<close>

fun series_min :: "real option list \<Rightarrow> real option" where
  "series_min [] = None"
| "series_min (None # ds) = series_min ds"
| "series_min (Some d # ds) =
     (case series_min ds of None \<Rightarrow> Some d | Some m \<Rightarrow> Some (min d m))"

text \<open>\<^verbatim>\<open>Series.idxmin()\<close>: the position of the first entry equal to the minimum \<open>m\<close>.\<close>

fun idxmin :: "real option list \<Rightarrow> real \<Rightarrow> nat" where
  "idxmin [] m = 0"
| "idxmin (d # ds) m = (if d = Some m then 0 else Suc (idxmin ds m))"

record nearest_info =
  near_osm_id :: val
  near_name :: val
  near_operator :: val
  near_state :: val

record nearest_result =
  distance_km :: real
  distance_meters :: real
  nearest_info :: nearest_info

definition near_info_of :: "feature \<Rightarrow> nearest_info" where
  "near_info_of nearest_prison =
     \<lparr>near_osm_id = osm_id nearest_prison,
      near_name = row_get (columns nearest_prison) ''name'' (VStr ''N/A''),
      near_operator = row_get (columns nearest_prison) ''operator'' (VStr ''N/A''),
      near_state = row_get (columns nearest_prison) ''addr:state'' (VStr ''N/A'')\<rparr>"

text \<open>
  The distances are taken from the geometry column of \<^verbatim>\<open>prisons_metric\<close> to the query
  point reprojected from EPSG:4326 to EPSG:3857. A NaN minimum fails the comparison
  with \<open>max_distance_km\<close>, so the method returns \<^verbatim>\<open>None\<close>. \<^verbatim>\<open>iloc\<close> raises IndexError
  out of range.
\<close>

definition get_nearest_prison ::
  "ext \<Rightarrow> geofencing \<Rightarrow> real \<Rightarrow> real \<Rightarrow> real \<Rightarrow> exn + nearest_result option" where
  "get_nearest_prison e self lat lon max_distance_km =
     (let point_metric = to_crs e 4326 3857 (GPoint lon lat);
          distances = map (\<lambda>r. distance e (geometry r) point_metric) (rows (prisons_metric self))
      in case series_min distances of
           None \<Rightarrow> Inr None
         | Some min_distance \<Rightarrow>
             (let min_distance_km = min_distance / 1000
              in if min_distance_km \<le> max_distance_km
                 then (let nearest_idx = idxmin distances min_distance
                       in if nearest_idx < length (rows (prisons_gdf self))
                          then Inr (Some
                                 \<lparr>distance_km = py_round 3 min_distance_km,
                                  distance_meters = py_round 1 min_distance,
                                  nearest_info = near_info_of (rows (prisons_gdf self) ! nearest_idx)\<rparr>)
                          else Inl IndexError)
                 else Inr None))"

section \<open>The REST endpoints\<close>

text \<open>
  The request body as \<^verbatim>\<open>request.json\<close> gives it, once parsed. An object is its list of
  members, with distinct keys. A JSON number without fraction or exponent is a Python
  \<^verbatim>\<open>int\<close> of any size (\<open>JInt\<close>); any other number is a \<^verbatim>\<open>float\<close> (\<open>JNum\<close>), of which the
  finite ones are modelled. Turning the answer into JSON text (\<^verbatim>\<open>jsonify\<close>) is not
  modelled: an endpoint returns its status and the value it hands over.
\<close>

datatype json =
    JNull
  | JBool bool
  | JInt int
  | JNum real
  | JStr string
  | JArr "json list"
  | JObj "(string \<times> json) list"

text \<open>Python truthiness, as in \<^verbatim>\<open>if not data\<close>.\<close>

fun truthy :: "json \<Rightarrow> bool" where
  "truthy JNull = False"
| "truthy (JBool b) = b"
| "truthy (JInt n) = (n \<noteq> 0)"
| "truthy (JNum r) = (r \<noteq> 0)"
| "truthy (JStr s) = (s \<noteq> [])"
| "truthy (JArr xs) = (xs \<noteq> [])"
| "truthy (JObj kvs) = (kvs \<noteq> [])"

text \<open>
  \<^verbatim>\<open>key in data\<close>: a key of a dict, an element of a list, a substring of a string, and
  TypeError on anything else.
\<close>

fun has_key :: "string \<Rightarrow> json \<Rightarrow> exn + bool" where
  "has_key k (JObj kvs) = Inr (map_of kvs k \<noteq> None)"
| "has_key k (JArr xs) = Inr (JStr k \<in> set xs)"
| "has_key k (JStr s) = Inr (sublist k s)"
| "has_key k _ = Inl TypeError"

text \<open>\<^verbatim>\<open>data[key]\<close> with a string key.\<close>

fun getitem :: "json \<Rightarrow> string \<Rightarrow> exn + json" where
  "getitem (JObj kvs) k = (case map_of kvs k of Some v \<Rightarrow> Inr v | None \<Rightarrow> Inl KeyError)"
| "getitem _ k = Inl TypeError"

text \<open>
  \<^verbatim>\<open>float(n)\<close> on an \<^verbatim>\<open>int\<close> raises OverflowError when \<open>n\<close> does not round to a finite
  double, that is from \<^verbatim>\<open>2**1024 - 2**970\<close> on in absolute value.
\<close>

definition float_limit :: int where
  "float_limit = 2 ^ 1024 - 2 ^ 970"

text \<open>\<^verbatim>\<open>float(v)\<close>.\<close>

fun py_float :: "ext \<Rightarrow> json \<Rightarrow> exn + real" where
  "py_float e (JNum r) = Inr r"
| "py_float e (JInt n) = (if \<bar>n\<bar> < float_limit then Inr (of_int n) else Inl OverflowError)"
| "py_float e (JBool b) = Inr (if b then 1 else 0)"
| "py_float e (JStr s) = (case float_of_str e s of Some r \<Rightarrow> Inr r | None \<Rightarrow> Inl ValueError)"
| "py_float e _ = Inl TypeError"

text \<open>Iterating a value with \<^verbatim>\<open>for loc in ...\<close>.\<close>

fun py_iter :: "json \<Rightarrow> exn + json list" where
  "py_iter (JArr xs) = Inr xs"
| "py_iter (JObj kvs) = Inr (map (\<lambda>kv. JStr (fst kv)) kvs)"
| "py_iter (JStr s) = Inr (map (\<lambda>c. JStr [c]) s)"
| "py_iter _ = Inl TypeError"

text \<open>\<^verbatim>\<open>lat = float(d['latitude']); lon = float(d['longitude'])\<close>, in this order.\<close>

definition lat_lon :: "ext \<Rightarrow> json \<Rightarrow> exn + (real \<times> real)" where
  "lat_lon e d =
     (case getitem d ''latitude'' of
        Inl x \<Rightarrow> Inl x
      | Inr a \<Rightarrow>
          (case py_float e a of
             Inl x \<Rightarrow> Inl x
           | Inr lat \<Rightarrow>
               (case getitem d ''longitude'' of
                  Inl x \<Rightarrow> Inl x
                | Inr b \<Rightarrow>
                    (case py_float e b of
                       Inl x \<Rightarrow> Inl x
                     | Inr lon \<Rightarrow> Inr (lat, lon)))))"

datatype body =
    ErrorBody string
  | InternalServerError
  | CheckBody check_result "json option"
  | BatchBody nat "check_result list"
  | NearestBody nearest_result
  | NoPrisonBody real

type_synonym response = "nat \<times> body"

text \<open>
  The process state: the global \<^verbatim>\<open>PRISONS_DATA\<close> (\<open>None\<close> until \<^verbatim>\<open>initialize_api\<close> has
  run) and the number of clock readings taken so far.
\<close>

record world =
  PRISONS_DATA :: "geofencing option"
  ticks :: nat

text \<open>
  An exception that no handler catches makes Flask answer 500. The check and nearest
  endpoints catch \<^verbatim>\<open>(ValueError, TypeError)\<close> around the conversions, the batch endpoint
  \<^verbatim>\<open>(ValueError, TypeError, KeyError)\<close>.
\<close>

definition uncaught :: "world \<Rightarrow> response \<times> world" where
  "uncaught w = ((500, InternalServerError), w)"

definition check_location_route ::
  "ext \<Rightarrow> (nat \<Rightarrow> timestamp) \<Rightarrow> world \<Rightarrow> json \<Rightarrow> response \<times> world" where
  "check_location_route e clock w data =
     (case PRISONS_DATA w of
        None \<Rightarrow> ((500, ErrorBody ''Prison data not loaded''), w)
      | Some pd \<Rightarrow>
          if \<not> truthy data then ((400, ErrorBody ''Missing latitude or longitude''), w)
          else
            (case has_key ''latitude'' data of
               Inl x \<Rightarrow> uncaught w
             | Inr False \<Rightarrow> ((400, ErrorBody ''Missing latitude or longitude''), w)
             | Inr True \<Rightarrow>
                 (case has_key ''longitude'' data of
                    Inl x \<Rightarrow> uncaught w
                  | Inr False \<Rightarrow> ((400, ErrorBody ''Missing latitude or longitude''), w)
                  | Inr True \<Rightarrow>
                      (case lat_lon e data of
                         Inl x \<Rightarrow>
                           (if x \<in> {ValueError, TypeError}
                            then ((400, ErrorBody ''Invalid coordinates''), w)
                            else uncaught w)
                       | Inr (lat, lon) \<Rightarrow>
                           (let result = check_location e pd (clock (ticks w)) lat lon;
                                w' = w\<lparr>ticks := Suc (ticks w)\<rparr>
                            in case getitem data ''transaction_id'' of
                                 Inr t \<Rightarrow> ((200, CheckBody result (Some t)), w')
                               | Inl x \<Rightarrow> ((200, CheckBody result None), w'))))))"

text \<open>
  The loop of the batch endpoint: the first element whose conversion raises ends the
  request.
\<close>

fun parse_locations :: "ext \<Rightarrow> json list \<Rightarrow> exn + (real \<times> real) list" where
  "parse_locations e [] = Inr []"
| "parse_locations e (loc # locs) =
     (case lat_lon e loc of
        Inl x \<Rightarrow> Inl x
      | Inr p \<Rightarrow>
          (case parse_locations e locs of
             Inl x \<Rightarrow> Inl x
           | Inr ps \<Rightarrow> Inr (p # ps)))"

definition batch_check_route ::
  "ext \<Rightarrow> (nat \<Rightarrow> timestamp) \<Rightarrow> world \<Rightarrow> json \<Rightarrow> response \<times> world" where
  "batch_check_route e clock w data =
     (case PRISONS_DATA w of
        None \<Rightarrow> ((500, ErrorBody ''Prison data not loaded''), w)
      | Some pd \<Rightarrow>
          if \<not> truthy data then ((400, ErrorBody ''Missing locations array''), w)
          else
            (case has_key ''locations'' data of
               Inl x \<Rightarrow> uncaught w
             | Inr False \<Rightarrow> ((400, ErrorBody ''Missing locations array''), w)
             | Inr True \<Rightarrow>
                 (case getitem data ''locations'' of
                    Inl x \<Rightarrow> uncaught w
                  | Inr ls \<Rightarrow>
                      (case py_iter ls of
                         Inl x \<Rightarrow> uncaught w
                       | Inr locs \<Rightarrow>
                           (case parse_locations e locs of
                              Inl x \<Rightarrow>
                                (if x \<in> {ValueError, TypeError, KeyError}
                                 then ((400, ErrorBody ''Invalid location format''), w)
                                 else uncaught w)
                            | Inr locations \<Rightarrow>
                                (let results = batch_check e pd clock (ticks w) locations
                                 in ((200, BatchBody (length results) results),
                                     w\<lparr>ticks := ticks w + length locations\<rparr>)))))))"

text \<open>
  \<^verbatim>\<open>max_dist = float(data.get('max_distance_km', 5.0))\<close>; it is reached only when
  \<^verbatim>\<open>data['latitude']\<close> has succeeded, so \<open>data\<close> is an object there.
\<close>

definition max_dist_of :: "ext \<Rightarrow> json \<Rightarrow> exn + real" where
  "max_dist_of e data =
     (case getitem data ''max_distance_km'' of
        Inr v \<Rightarrow> py_float e v
      | Inl KeyError \<Rightarrow> Inr 5
      | Inl x \<Rightarrow> Inl x)"

definition nearest_prison_route :: "ext \<Rightarrow> world \<Rightarrow> json \<Rightarrow> response \<times> world" where
  "nearest_prison_route e w data =
     (case PRISONS_DATA w of
        None \<Rightarrow> ((500, ErrorBody ''Prison data not loaded''), w)
      | Some pd \<Rightarrow>
          if \<not> truthy data then ((400, ErrorBody ''Missing latitude or longitude''), w)
          else
            (case has_key ''latitude'' data of
               Inl x \<Rightarrow> uncaught w
             | Inr False \<Rightarrow> ((400, ErrorBody ''Missing latitude or longitude''), w)
             | Inr True \<Rightarrow>
                 (case has_key ''longitude'' data of
                    Inl x \<Rightarrow> uncaught w
                  | Inr False \<Rightarrow> ((400, ErrorBody ''Missing latitude or longitude''), w)
                  | Inr True \<Rightarrow>
                      (case lat_lon e data of
                         Inl x \<Rightarrow>
                           (if x \<in> {ValueError, TypeError}
                            then ((400, ErrorBody ''Invalid parameters''), w)
                            else uncaught w)
                       | Inr (lat, lon) \<Rightarrow>
                           (case max_dist_of e data of
                              Inl x \<Rightarrow>
                                (if x \<in> {ValueError, TypeError}
                                 then ((400, ErrorBody ''Invalid parameters''), w)
                                 else uncaught w)
                            | Inr max_dist \<Rightarrow>
                                (case get_nearest_prison e pd lat lon max_dist of
                                   Inl x \<Rightarrow> uncaught w
                                 | Inr (Some result) \<Rightarrow> ((200, NearestBody result), w)
                                 | Inr None \<Rightarrow> ((200, NoPrisonBody max_dist), w)))))))"

text \<open>The three query endpoints as one step function on the process state.\<close>

datatype request = CheckLocation json | BatchCheck json | NearestPrison json

fun handle :: "ext \<Rightarrow> (nat \<Rightarrow> timestamp) \<Rightarrow> world \<Rightarrow> request \<Rightarrow> response \<times> world" where
  "handle e clock w (CheckLocation data) = check_location_route e clock w data"
| "handle e clock w (BatchCheck data) = batch_check_route e clock w data"
| "handle e clock w (NearestPrison data) = nearest_prison_route e w data"

section \<open>An instance of the external operations\<close>

text \<open>
  To run the model on concrete inputs, \<open>rect_ext\<close> gives the external operations on
  points and on rectangles with sides parallel to the axes, where they have closed
  forms: a rectangle contains the points strictly between its sides and a point
  contains itself; a buffer by \<open>d \<le> 0\<close> moves every side of a rectangle inwards by \<open>-d\<close>
  and is empty once the sides meet, and it is empty on a point; the distance is the
  Euclidean one where the offset lies along one axis (no square root is needed
  there). A buffer by \<open>d > 0\<close> grows a rectangle, or a point, by \<open>d\<close> on every side and
  leaves the corners square, where shapely rounds them. The projection is a plane
  chart of 100 km per degree, a stand-in for EPSG:3857, which stretches a degree to
  about 111 km and more; the sample inputs are chosen so that every verdict below is
  the same under both. On any other input the instance answers \<open>GEmpty\<close>, \<open>False\<close> or
  \<open>None\<close>, and nothing is concluded from those answers. \<open>float_of_str\<close> reads strings of
  decimal digits.
\<close>

definition rect :: "real \<Rightarrow> real \<Rightarrow> real \<Rightarrow> real \<Rightarrow> geom" where
  "rect x0 y0 x1 y1 = GPolygon [(x0, y0), (x0, y1), (x1, y1), (x1, y0)]"

fun as_rect :: "geom \<Rightarrow> (real \<times> real \<times> real \<times> real) option" where
  "as_rect (GPolygon [(x0, y0), (x0', y1), (x1, y1'), (x1', y0')]) =
     (if x0' = x0 \<and> y1' = y1 \<and> x1' = x1 \<and> y0' = y0 \<and> x0 < x1 \<and> y0 < y1
      then Some (x0, y0, x1, y1) else None)"
| "as_rect g = None"

fun rect_contains :: "geom \<Rightarrow> geom \<Rightarrow> bool" where
  "rect_contains (GPoint a b) (GPoint x y) = (a = x \<and> b = y)"
| "rect_contains g (GPoint x y) =
     (case as_rect g of
        Some (x0, y0, x1, y1) \<Rightarrow> x0 < x \<and> x < x1 \<and> y0 < y \<and> y < y1
      | None \<Rightarrow> False)"
| "rect_contains g p = False"

definition rect_buffer :: "geom \<Rightarrow> real \<Rightarrow> geom" where
  "rect_buffer g d =
     (case g of
        GPoint x y \<Rightarrow> if d \<le> 0 then GEmpty else rect (x - d) (y - d) (x + d) (y + d)
      | _ \<Rightarrow>
          (case as_rect g of
             Some (x0, y0, x1, y1) \<Rightarrow>
               if x0 - d < x1 + d \<and> y0 - d < y1 + d
               then rect (x0 - d) (y0 - d) (x1 + d) (y1 + d) else GEmpty
           | None \<Rightarrow> GEmpty))"

fun scale_geom :: "real \<Rightarrow> geom \<Rightarrow> geom" where
  "scale_geom k GEmpty = GEmpty"
| "scale_geom k (GPoint x y) = GPoint (k * x) (k * y)"
| "scale_geom k (GPolygon ps) = GPolygon (map (\<lambda>(x, y). (k * x, k * y)) ps)"
| "scale_geom k (GMultiPolygon pss) = GMultiPolygon (map (map (\<lambda>(x, y). (k * x, k * y))) pss)"

definition rect_to_crs :: "nat \<Rightarrow> nat \<Rightarrow> geom \<Rightarrow> geom" where
  "rect_to_crs src dst g =
     (if src = 4326 \<and> dst = 3857 then scale_geom 100000 g
      else if src = 3857 \<and> dst = 4326 then scale_geom (1 / 100000) g
      else g)"

definition hypot :: "real \<Rightarrow> real \<Rightarrow> real option" where
  "hypot dx dy =
     (if dy = 0 then Some \<bar>dx\<bar> else if dx = 0 then Some \<bar>dy\<bar> else None)"

fun rect_distance :: "geom \<Rightarrow> geom \<Rightarrow> real option" where
  "rect_distance (GPoint a b) (GPoint x y) = hypot (x - a) (y - b)"
| "rect_distance g (GPoint x y) =
     (case as_rect g of
        Some (x0, y0, x1, y1) \<Rightarrow>
          hypot (max (max (x0 - x) (x - x1)) 0) (max (max (y0 - y) (y - y1)) 0)
      | None \<Rightarrow> None)"
| "rect_distance g p = None"

definition digits_value :: "string \<Rightarrow> real option" where
  "digits_value s =
     (if s \<noteq> [] \<and> list_all (\<lambda>c. c \<in> set ''0123456789'') s
      then Some (of_nat (foldl (\<lambda>n c. 10 * n + (of_char c - 48)) 0 s))
      else None)"

definition rect_ext :: ext where
  "rect_ext =
     \<lparr>contains = rect_contains, buffer = rect_buffer, to_crs = rect_to_crs,
      distance = rect_distance, float_of_str = digits_value\<rparr>"

text \<open>
  Sample data: a compound of about two kilometres across around the origin, a second
  record of the same compound with a lower id, a compound of one kilometre in Rio de
  Janeiro, a prison mapped as a single node, three nodes on one parallel, and a record
  without geometry.
\<close>

definition compound :: "real \<Rightarrow> feature" where
  "compound i =
     \<lparr>osm_id = VNum i,
      columns = [(''name'', VStr ''Compound''), (''addr:state'', VStr ''RJ'')],
      geometry = rect (- (1 / 100)) (- (1 / 100)) (1 / 100) (1 / 100)\<rparr>"

definition rio_compound :: feature where
  "rio_compound =
     \<lparr>osm_id = VNum 999001,
      columns = [(''name'', VStr ''Gericino''), (''operator'', VStr ''SEAP-RJ'')],
      geometry = rect (- (4347 / 100)) (- (2285 / 100)) (- (4346 / 100)) (- (2284 / 100))\<rparr>"

definition node :: "real \<Rightarrow> real \<Rightarrow> real \<Rightarrow> feature" where
  "node i x y = \<lparr>osm_id = VNum i, columns = [], geometry = GPoint x y\<rparr>"

definition one_compound :: "feature gdf" where
  "one_compound = \<lparr>crs = 4326, rows = [compound 7]\<rparr>"

definition rio :: "feature gdf" where
  "rio = \<lparr>crs = 4326, rows = [rio_compound]\<rparr>"

definition two_records :: "feature gdf" where
  "two_records = \<lparr>crs = 4326, rows = [compound 2, compound 1]\<rparr>"

definition one_node :: "feature gdf" where
  "one_node = \<lparr>crs = 4326, rows = [node 5 (- (434686 / 10000)) (- (228475 / 10000))]\<rparr>"

definition three_nodes :: "feature gdf" where
  "three_nodes =
     \<lparr>crs = 4326,
      rows = [node 1 (- (4341 / 100)) (- (2285 / 100)),
              \<lparr>osm_id = VNum 2, columns = [(''name'', VStr ''Ary Franco'')],
               geometry = GPoint (- (4347 / 100)) (- (2285 / 100))\<rparr>,
              node 3 (- (4345 / 100)) (- (2285 / 100))]\<rparr>"

definition no_geometry :: "feature gdf" where
  "no_geometry = \<lparr>crs = 4326, rows = [\<lparr>osm_id = VNum 9, columns = [], geometry = GEmpty\<rparr>]\<rparr>"

definition epoch :: "nat \<Rightarrow> timestamp" where
  "epoch n = ''2024-01-01T00:00:00+00:00''"

definition loaded :: "feature gdf \<Rightarrow> int \<Rightarrow> world" where
  "loaded file m = \<lparr>PRISONS_DATA = Some (init rect_ext file m), ticks = 0\<rparr>"

definition location :: "json \<Rightarrow> json \<Rightarrow> json" where
  "location a b = JObj [(''latitude'', a), (''longitude'', b)]"

section \<open>The safety geometry as the specification defines it\<close>

text \<open>
  The specification's prepare step, in its own words: reproject the raw geometry to
  metric, apply a negative buffer of the margin, and reproject the result back to
  geographic coordinates. The source announces the same last step in its comment
  \<^verbatim>\<open># Voltar para lat/lon\<close>. This is the geometry a query point, which is geographic, is
  meant to be tested against; it is compared below with the \<^verbatim>\<open>zone\<close> column the code
  tests.
\<close>

definition safety_geometry :: "ext \<Rightarrow> feature gdf \<Rightarrow> int \<Rightarrow> feature \<Rightarrow> geom" where
  "safety_geometry e file m r =
     to_crs e 3857 4326 (buffer e (to_crs e (crs file) 3857 (geometry r)) (- real_of_int m))"

text \<open>
  The distance the specification's nearest query reports: from the query point to the
  raw geometry of a record, both in the metric projection.
\<close>

definition raw_distance :: "ext \<Rightarrow> feature gdf \<Rightarrow> real \<Rightarrow> real \<Rightarrow> feature \<Rightarrow> real option" where
  "raw_distance e file lat lon r =
     distance e (to_crs e (crs file) 3857 (geometry r)) (to_crs e 4326 3857 (GPoint lon lat))"

text \<open>The boundary of a rectangle is its four sides; a point has none.\<close>

definition rect_boundary :: "geom \<Rightarrow> real \<Rightarrow> real \<Rightarrow> bool" where
  "rect_boundary g x y =
     (case as_rect g of
        Some (x0, y0, x1, y1) \<Rightarrow>
          x0 \<le> x \<and> x \<le> x1 \<and> y0 \<le> y \<and> y \<le> y1 \<and> (x = x0 \<or> x = x1 \<or> y = y0 \<or> y = y1)
      | None \<Rightarrow> False)"

section \<open>What shapely and pyproj do with a point\<close>

text \<open>
  Two facts about the external operations on points, stated as properties an instance
  may have: the buffer of a point by a distance that is not positive is empty (there is
  nothing within a negative distance of a point), and reprojecting a point gives a
  point.
\<close>

definition empties_points :: "ext \<Rightarrow> bool" where
  "empties_points e = (\<forall>x y d. d \<le> 0 \<longrightarrow> buffer e (GPoint x y) d = GEmpty)"

definition points_to_points :: "ext \<Rightarrow> bool" where
  "points_to_points e = (\<forall>src dst x y. \<exists>x' y'. to_crs e src dst (GPoint x y) = GPoint x' y')"

section \<open>Properties of the containment query\<close>

text \<open>The definitions a run on the sample data unfolds.\<close>

lemmas run_defs = init_def create_prison_zones_def gdf_to_crs_def add_zone_def rect_ext_def
  rect_def rect_buffer_def rect_to_crs_def compound_def rio_compound_def node_def
  one_compound_def rio_def two_records_def one_node_def three_nodes_def no_geometry_def
  check_location_def inside_result_def outside_result_def info_of_def row_get_def

text \<open>
  The \<^verbatim>\<open>zone\<close> column the queries test is the metric buffer: the specification's safety
  geometry is its reprojection to EPSG:4326, which the code never computes.
\<close>

lemma zone_not_reprojected:
  "i < length (rows file) \<Longrightarrow>
   safety_geometry e file m (rows file ! i) =
     to_crs e 3857 4326 (zone (rows (prisons_zones (init e file m)) ! i))"
  by (simp add: safety_geometry_def init_def create_prison_zones_def gdf_to_crs_def
        add_zone_def Let_def)

text \<open>
  Claim C1, on the code. The claim is that a query point contained in some zone's
  safety geometry is answered \<^verbatim>\<open>inside_prison = True\<close>, \<^verbatim>\<open>HIGH\<close>, with the zone's id and
  attributes. The code tests the geographic query point against the \<^verbatim>\<open>zone\<close> column,
  which holds metric coordinates. With the compound in Rio de Janeiro loaded and a
  margin of 50 m, the centre of the compound lies in its safety geometry, and
  \<^verbatim>\<open>check_location\<close> answers \<^verbatim>\<open>inside_prison = False\<close>, \<^verbatim>\<open>LOW\<close>, without zone info.
\<close>

theorem check_location_misses_compound:
  "contains rect_ext (safety_geometry rect_ext rio 50 (rows rio ! 0))
     (GPoint (- (43465 / 1000)) (- (22845 / 1000))) \<and>
   zone (rows (prisons_zones (init rect_ext rio 50)) ! 0) =
     rect (- 4346950) (- 2284950) (- 4346050) (- 2284050) \<and>
   check_location rect_ext (init rect_ext rio 50) (epoch 0) (- (22845 / 1000)) (- (43465 / 1000)) =
     \<lparr>inside_prison = False, risk_level = LOW, action = ALLOW, prison_info = None,
      latitude = - (22845 / 1000), longitude = - (43465 / 1000), timestamp = epoch 0\<rparr>"
  by (simp add: safety_geometry_def run_defs)

section \<open>Properties of the batch query\<close>

lemma batch_check_length: "length (batch_check e self clock tick locs) = length locs"
  by (induction e self clock tick locs rule: batch_check.induct) auto

lemma batch_check_nth:
  "i < length locs \<Longrightarrow>
   batch_check e self clock tick locs ! i =
     check_location e self (clock (tick + i)) (fst (locs ! i)) (snd (locs ! i))"
proof (induction e self clock tick locs arbitrary: i rule: batch_check.induct)
  case (1 e self clock tick)
  then show ?case by simp
next
  case (2 e self clock tick lat lon locations)
  then show ?case by (cases i) auto
qed

text \<open>
  Claim C8. For every list of input points, \<^verbatim>\<open>batch_check\<close> returns exactly one result
  per input point, and the \<open>i\<close>-th result is the result of \<^verbatim>\<open>check_location\<close> on the
  \<open>i\<close>-th input (with the clock reading of that call): the order of the output is the
  order of the input and the lengths agree.
\<close>

theorem batch_check_pointwise:
  "length (batch_check e self clock tick locs) = length locs \<and>
   (\<forall>i < length locs.
      batch_check e self clock tick locs ! i =
        check_location e self (clock (tick + i)) (fst (locs ! i)) (snd (locs ! i)))"
  by (simp add: batch_check_length batch_check_nth)

theorem batch_check_pointwise_witness:
  "(1::nat) < length [(1 / 200, 1 / 200), (3, 3 :: real)] \<and>
   batch_check rect_ext (init rect_ext one_compound 50) epoch 0 [(1 / 200, 1 / 200), (3, 3)] ! 1 =
     check_location rect_ext (init rect_ext one_compound 50) (epoch 1) 3 3"
  using batch_check_pointwise [of rect_ext "init rect_ext one_compound 50" epoch 0 "[(1 / 200, 1 / 200), (3, 3)]"]
  by simp

section \<open>Which zone a match reports\<close>





section \<open>Properties of the prepare step\<close>

lemma rows_prisons_zones:
  "rows (prisons_zones (init e file m)) =
     map (\<lambda>r. \<lparr>osm_id = osm_id r, columns = columns r,
                geometry = to_crs e 3857 4326 (to_crs e (crs file) 3857 (geometry r)),
                zone = buffer e (to_crs e (crs file) 3857 (geometry r)) (- real_of_int m)\<rparr>)
         (rows file)"
  by (simp add: init_def create_prison_zones_def gdf_to_crs_def add_zone_def Let_def)

lemma rows_prisons_metric:
  "rows (prisons_metric (init e file m)) =
     map (\<lambda>r. \<lparr>osm_id = osm_id r, columns = columns r,
                geometry = to_crs e (crs file) 3857 (geometry r),
                zone = buffer e (to_crs e (crs file) 3857 (geometry r)) (- real_of_int m)\<rparr>)
         (rows file)"
  by (simp add: init_def create_prison_zones_def gdf_to_crs_def add_zone_def Let_def)

lemma zone_column:
  "map zone (rows (prisons_zones (init e file m))) =
     map (\<lambda>g. buffer e (to_crs e (crs file) 3857 g) (- real_of_int m)) (map geometry (rows file))"
  by (simp add: rows_prisons_zones)

text \<open>
  Claim C7. The safety geometries are a function of the raw geometry column (with the
  coordinate reference system it is tagged with) and of the buffer margin alone: two
  loads that agree on these produce identical \<^verbatim>\<open>zone\<close> columns, whatever the ids and
  attributes of the records; in particular, preparing the same input twice gives the
  same safety geometries. The external operations are functions of their arguments.
\<close>

theorem zone_column_determined:
  "crs file = crs file' \<Longrightarrow> map geometry (rows file) = map geometry (rows file') \<Longrightarrow>
   map zone (rows (prisons_zones (init e file m))) =
   map zone (rows (prisons_zones (init e file' m)))"
  by (simp only: zone_column)

theorem zone_column_determined_witness:
  "crs one_compound = crs \<lparr>crs = 4326, rows = [compound 1]\<rparr> \<and>
   map geometry (rows one_compound) = map geometry (rows \<lparr>crs = 4326, rows = [compound 1]\<rparr>) \<and>
   one_compound \<noteq> \<lparr>crs = 4326, rows = [compound 1]\<rparr> \<and>
   map zone (rows (prisons_zones (init rect_ext one_compound 50))) =
   map zone (rows (prisons_zones (init rect_ext \<lparr>crs = 4326, rows = [compound 1]\<rparr> 50)))"
proof -
  have a: "crs one_compound = crs \<lparr>crs = 4326, rows = [compound 1]\<rparr>"
    by (simp add: one_compound_def)
  have b: "map geometry (rows one_compound) = map geometry (rows \<lparr>crs = 4326, rows = [compound 1]\<rparr>)"
    by (simp add: one_compound_def compound_def)
  have c: "one_compound \<noteq> \<lparr>crs = 4326, rows = [compound 1]\<rparr>"
    by (simp add: one_compound_def compound_def)
  from zone_column_determined [OF a b, of rect_ext 50] a b c show ?thesis
    by blast
qed

lemma rect_ext_empties_points: "empties_points rect_ext"
  by (simp add: empties_points_def rect_ext_def rect_buffer_def)

lemma rect_ext_points_to_points: "points_to_points rect_ext"
  unfolding points_to_points_def
proof (intro allI)
  fix src dst x y
  have lib: "to_crs rect_ext = rect_to_crs"
    by (simp add: rect_ext_def)
  have "rect_to_crs src dst (GPoint x y) = GPoint x y \<or>
        (\<exists>k. rect_to_crs src dst (GPoint x y) = GPoint (k * x) (k * y))"
    unfolding rect_to_crs_def scale_geom.simps by metis
  then show "\<exists>x' y'. to_crs rect_ext src dst (GPoint x y) = GPoint x' y'"
    unfolding lib by blast
qed

text \<open>
  Claim C4, as stated: for a record whose raw geometry is a single point, buffering is
  skipped and the safety geometry is that point. On the code it fails: the buffer is
  applied to every row, and the negative buffer of a point is empty.
\<close>

theorem point_zone_counterexample:
  "geometry (rows one_node ! 0) = GPoint (- (434686 / 10000)) (- (228475 / 10000)) \<and>
   zone (rows (prisons_zones (init rect_ext one_node 50)) ! 0) = GEmpty"
  by (simp add: run_defs)

text \<open>
  Claim C4, amended. For every zone record whose raw geometry is a single point and
  every margin that is not negative, the prepare step does not skip buffering: the
  safety geometry is the buffer, by minus the margin, of the point reprojected to the
  metric reference system. With shapely and pyproj that buffer is the empty geometry,
  so the safety geometry is empty and is not that same point.
\<close>

theorem point_zone_is_empty:
  "empties_points e \<Longrightarrow> points_to_points e \<Longrightarrow> 0 \<le> m \<Longrightarrow>
   i < length (rows file) \<Longrightarrow> geometry (rows file ! i) = GPoint x y \<Longrightarrow>
   zone (rows (prisons_zones (init e file m)) ! i) =
     buffer e (to_crs e (crs file) 3857 (GPoint x y)) (- real_of_int m) \<and>
   zone (rows (prisons_zones (init e file m)) ! i) = GEmpty \<and>
   zone (rows (prisons_zones (init e file m)) ! i) \<noteq> GPoint x y"
proof -
  assume lib: "empties_points e" "points_to_points e" and m: "0 \<le> m"
    and row: "i < length (rows file)" "geometry (rows file ! i) = GPoint x y"
  from lib(2) obtain x' y' where p: "to_crs e (crs file) 3857 (GPoint x y) = GPoint x' y'"
    unfolding points_to_points_def by blast
  from m have "- real_of_int m \<le> 0" by simp
  with lib(1) have "buffer e (GPoint x' y') (- real_of_int m) = GEmpty"
    unfolding empties_points_def by blast
  with p row show ?thesis
    by (simp add: rows_prisons_zones)
qed

theorem point_zone_is_empty_witness:
  "empties_points rect_ext \<and> points_to_points rect_ext \<and> (0::int) \<le> 50 \<and>
   (0::nat) < length (rows one_node) \<and>
   geometry (rows one_node ! 0) = GPoint (- (434686 / 10000)) (- (228475 / 10000)) \<and>
   zone (rows (prisons_zones (init rect_ext one_node 50)) ! 0) = GEmpty"
proof -
  have a: "(0::nat) < length (rows one_node)"
    by (simp add: one_node_def)
  have b: "geometry (rows one_node ! 0) = GPoint (- (434686 / 10000)) (- (228475 / 10000))"
    by (simp add: one_node_def node_def)
  have c: "(0::int) \<le> 50"
    by simp
  from point_zone_is_empty [OF rect_ext_empties_points rect_ext_points_to_points c a b]
    rect_ext_empties_points rect_ext_points_to_points c a b
  show ?thesis by blast
qed

section \<open>Properties of the endpoints\<close>

lemmas route_defs = loaded_def location_def epoch_def lat_lon_def uncaught_def float_limit_def

text \<open>
  Claim C3, as stated: a latitude outside \<open>[-90, 90]\<close> or a longitude outside
  \<open>[-180, 180]\<close> makes the check fail with an invalid-coordinate error instead of a
  verdict. On the code it fails: latitude 200 is answered with status 200 and the
  verdict "not inside".
\<close>

theorem range_check_counterexample:
  "\<not> (- 90 \<le> (200::real) \<and> (200::real) \<le> 90) \<and>
   fst (check_location_route rect_ext epoch (loaded rio 50) (location (JInt 200) (JInt 0))) =
     (200, CheckBody (outside_result 200 0 (epoch 0)) None)"
  by (simp add: check_location_route_def route_defs run_defs)

text \<open>
  Claim C3, amended. The check validates no range: for every latitude and longitude
  given as numbers that \<^verbatim>\<open>float\<close> converts (any JSON float, any JSON integer below the
  overflow limit of \<^verbatim>\<open>float\<close>), inside or outside \<open>[-90, 90]\<close> and \<open>[-180, 180]\<close>, the
  endpoint answers with status 200 and the containment verdict of \<^verbatim>\<open>check_location\<close> at
  these coordinates, never with an invalid-coordinate error.
\<close>

theorem check_location_route_numeric:
  "PRISONS_DATA w = Some pd \<Longrightarrow>
   map_of kvs ''latitude'' = Some a \<Longrightarrow>
   map_of kvs ''longitude'' = Some b \<Longrightarrow>
   a = JNum lat \<or> (\<exists>n. a = JInt n \<and> \<bar>n\<bar> < 2 ^ 1024 - 2 ^ 970 \<and> lat = of_int n) \<Longrightarrow>
   b = JNum lon \<or> (\<exists>n. b = JInt n \<and> \<bar>n\<bar> < 2 ^ 1024 - 2 ^ 970 \<and> lon = of_int n) \<Longrightarrow>
   fst (check_location_route e clock w (JObj kvs)) =
     (200, CheckBody (check_location e pd (clock (ticks w)) lat lon) (map_of kvs ''transaction_id''))"
proof -
  assume w: "PRISONS_DATA w = Some pd"
    and k: "map_of kvs ''latitude'' = Some a" "map_of kvs ''longitude'' = Some b"
    and a: "a = JNum lat \<or> (\<exists>n. a = JInt n \<and> \<bar>n\<bar> < 2 ^ 1024 - 2 ^ 970 \<and> lat = of_int n)"
    and b: "b = JNum lon \<or> (\<exists>n. b = JInt n \<and> \<bar>n\<bar> < 2 ^ 1024 - 2 ^ 970 \<and> lon = of_int n)"
  from a have fa: "py_float e a = Inr lat"
    by (auto simp: float_limit_def)
  from b have fb: "py_float e b = Inr lon"
    by (auto simp: float_limit_def)
  from k fa fb have ll: "lat_lon e (JObj kvs) = Inr (lat, lon)"
    by (simp add: lat_lon_def)
  from k have ne: "kvs \<noteq> []" by auto
  show ?thesis
    using w k ll ne
    by (cases "map_of kvs ''transaction_id''")
       (auto simp: check_location_route_def Let_def)
qed

theorem check_location_route_numeric_witness:
  "PRISONS_DATA (loaded rio 50) = Some (init rect_ext rio 50) \<and>
   map_of [(''latitude'', JInt 200), (''longitude'', JNum (1 / 2))] ''latitude'' = Some (JInt 200) \<and>
   map_of [(''latitude'', JInt 200), (''longitude'', JNum (1 / 2))] ''longitude'' = Some (JNum (1 / 2)) \<and>
   \<bar>200::int\<bar> < 2 ^ 1024 - 2 ^ 970 \<and>
   fst (check_location_route rect_ext epoch (loaded rio 50)
          (JObj [(''latitude'', JInt 200), (''longitude'', JNum (1 / 2))])) =
     (200, CheckBody (outside_result 200 (1 / 2) (epoch 0)) None)"
proof -
  have a: "PRISONS_DATA (loaded rio 50) = Some (init rect_ext rio 50)"
    by (simp add: loaded_def)
  have b: "map_of [(''latitude'', JInt 200), (''longitude'', JNum (1 / 2))] ''latitude'' = Some (JInt 200)"
    by simp
  have c: "map_of [(''latitude'', JInt 200), (''longitude'', JNum (1 / 2))] ''longitude'' = Some (JNum (1 / 2))"
    by simp
  have n: "\<bar>200::int\<bar> < 2 ^ 1024 - 2 ^ 970"
    by simp
  then have d: "JInt 200 = JNum 200 \<or> (\<exists>n. JInt 200 = JInt n \<and> \<bar>n\<bar> < 2 ^ 1024 - 2 ^ 970 \<and> (200::real) = of_int n)"
    by simp
  have f: "JNum (1 / 2) = JNum (1 / 2) \<or>
           (\<exists>n. JNum (1 / 2) = JInt n \<and> \<bar>n\<bar> < 2 ^ 1024 - 2 ^ 970 \<and> (1 / 2 :: real) = of_int n)"
    by simp
  have v: "check_location rect_ext (init rect_ext rio 50) (epoch 0) 200 (1 / 2) =
           outside_result 200 (1 / 2) (epoch 0)"
    by (simp add: run_defs)
  from check_location_route_numeric [OF a b c d f, of rect_ext epoch] a b c n v show ?thesis
    by (simp add: loaded_def)
qed

text \<open>
  An integer too large for a \<^verbatim>\<open>float\<close> is the one numeric input that gets no verdict:
  the conversion raises OverflowError, which no \<^verbatim>\<open>except\<close> clause of the endpoint names.
\<close>

lemma check_location_route_overflow:
  "fst (check_location_route rect_ext epoch (loaded rio 50) (location (JInt (10 ^ 400)) (JInt 0))) =
     (500, InternalServerError)"
  by (simp add: check_location_route_def route_defs)

lemma lat_lon_errors:
  "lat_lon e d = Inl x \<Longrightarrow> x \<in> {ValueError, TypeError, KeyError, OverflowError}"
proof -
  have g: "getitem d k = Inl x \<Longrightarrow> x \<in> {TypeError, KeyError}" for k x
    by (cases d) (auto split: option.splits)
  have f: "py_float e v = Inl x \<Longrightarrow> x \<in> {ValueError, TypeError, OverflowError}" for v x
    by (cases v) (auto split: option.splits if_splits)
  assume "lat_lon e d = Inl x"
  then show ?thesis
    using g [of "''latitude''"] g [of "''longitude''"] f
    by (fastforce simp: lat_lon_def split: sum.splits)
qed

lemma parse_locations_first:
  "find (\<lambda>loc. isl (lat_lon e loc)) locs = Some loc \<Longrightarrow>
   \<exists>x. lat_lon e loc = Inl x \<and> parse_locations e locs = Inl x"
proof (induction locs)
  case Nil
  then show ?case by simp
next
  case (Cons l locs)
  show ?case
  proof (cases "lat_lon e l")
    case (Inl x)
    with Cons.prems show ?thesis by auto
  next
    case (Inr p)
    with Cons.prems have "find (\<lambda>loc. isl (lat_lon e loc)) locs = Some loc" by simp
    from Cons.IH [OF this] Inr show ?thesis by auto
  qed
qed

lemma parse_locations_succeeds:
  "find (\<lambda>loc. isl (lat_lon e loc)) locs = None \<Longrightarrow>
   parse_locations e locs = Inr (map (\<lambda>loc. projr (lat_lon e loc)) locs)"
  by (induction locs) (auto split: sum.splits if_splits)

text \<open>
  Claim C2, as stated: an invalid element of a batch fails only its own result and the
  batch is never rejected as a whole. On the code it fails: one element whose latitude
  is not a number makes the endpoint answer 400 for the whole request, though the
  other two elements are valid.
\<close>

theorem whole_batch_rejected_counterexample:
  "fst (batch_check_route rect_ext epoch (loaded one_compound 50)
          (JObj [(''locations'',
                  JArr [location (JNum (1 / 200)) (JNum (1 / 200)),
                        location (JStr ''north'') (JInt 0),
                        location (JInt 3) (JInt 3)])])) =
     (400, ErrorBody ''Invalid location format'')"
  by (simp add: batch_check_route_def route_defs rect_ext_def digits_value_def)

text \<open>
  Claim C2, amended. The batch endpoint is all-or-nothing. If no element of the list
  fails to give a latitude and a longitude, the answer holds one verdict of
  \<^verbatim>\<open>check_location\<close> per element, in order, none of them an error entry; a number out of
  range (latitude 200) is not invalid for the code and is checked like any other
  point. Otherwise the first element that fails decides for the whole request: when
  its latitude or longitude is missing or is not convertible to a number (KeyError,
  TypeError, ValueError), the request is rejected with status 400 and no result is
  produced.
\<close>

theorem batch_check_route_all_or_nothing:
  "PRISONS_DATA w = Some pd \<Longrightarrow>
   map_of kvs ''locations'' = Some (JArr locs) \<Longrightarrow>
   (case find (\<lambda>loc. isl (lat_lon e loc)) locs of
      None \<Rightarrow>
        fst (batch_check_route e clock w (JObj kvs)) =
          (200, BatchBody (length locs)
                  (batch_check e pd clock (ticks w) (map (\<lambda>loc. projr (lat_lon e loc)) locs)))
    | Some loc \<Rightarrow>
        lat_lon e loc \<noteq> Inl OverflowError \<longrightarrow>
        fst (batch_check_route e clock w (JObj kvs)) = (400, ErrorBody ''Invalid location format''))"
proof -
  assume w: "PRISONS_DATA w = Some pd" and k: "map_of kvs ''locations'' = Some (JArr locs)"
  from k have ne: "kvs \<noteq> []" by auto
  show ?thesis
  proof (cases "find (\<lambda>loc. isl (lat_lon e loc)) locs")
    case None
    from parse_locations_succeeds [OF None] w k ne None show ?thesis
      by (simp add: batch_check_route_def Let_def batch_check_length)
  next
    case (Some loc)
    from parse_locations_first [OF Some]
    obtain x where x: "lat_lon e loc = Inl x" "parse_locations e locs = Inl x" by blast
    from lat_lon_errors [OF x(1)]
    have "x \<noteq> OverflowError \<longrightarrow> x \<in> {ValueError, TypeError, KeyError}" by auto
    with x w k ne Some show ?thesis
      by (auto simp: batch_check_route_def)
  qed
qed

theorem batch_check_route_all_or_nothing_witness:
  "PRISONS_DATA (loaded rio 50) = Some (init rect_ext rio 50) \<and>
   map_of [(''locations'', JArr [location (JInt 200) (JInt 0), location (JInt 3) (JInt 3)])]
     ''locations'' = Some (JArr [location (JInt 200) (JInt 0), location (JInt 3) (JInt 3)]) \<and>
   find (\<lambda>loc. isl (lat_lon rect_ext loc)) [location (JInt 200) (JInt 0), location (JInt 3) (JInt 3)] = None \<and>
   fst (batch_check_route rect_ext epoch (loaded rio 50)
          (JObj [(''locations'', JArr [location (JInt 200) (JInt 0), location (JInt 3) (JInt 3)])])) =
     (200, BatchBody 2 [outside_result 200 0 (epoch 0), outside_result 3 3 (epoch 1)]) \<and>
   map_of [(''locations'', JArr [location (JInt 3) (JInt 3), location (JStr ''north'') (JInt 0)])]
     ''locations'' = Some (JArr [location (JInt 3) (JInt 3), location (JStr ''north'') (JInt 0)]) \<and>
   find (\<lambda>loc. isl (lat_lon rect_ext loc)) [location (JInt 3) (JInt 3), location (JStr ''north'') (JInt 0)] =
     Some (location (JStr ''north'') (JInt 0)) \<and>
   lat_lon rect_ext (location (JStr ''north'') (JInt 0)) = Inl ValueError \<and>
   fst (batch_check_route rect_ext epoch (loaded rio 50)
          (JObj [(''locations'', JArr [location (JInt 3) (JInt 3), location (JStr ''north'') (JInt 0)])])) =
     (400, ErrorBody ''Invalid location format'')"
proof -
  have a: "PRISONS_DATA (loaded rio 50) = Some (init rect_ext rio 50)"
    by (simp add: loaded_def)
  have b: "map_of [(''locations'', JArr [location (JInt 200) (JInt 0), location (JInt 3) (JInt 3)])]
     ''locations'' = Some (JArr [location (JInt 200) (JInt 0), location (JInt 3) (JInt 3)])"
    by simp
  have c: "find (\<lambda>loc. isl (lat_lon rect_ext loc)) [location (JInt 200) (JInt 0), location (JInt 3) (JInt 3)] = None"
    by (simp add: location_def lat_lon_def float_limit_def)
  have d: "batch_check rect_ext (init rect_ext rio 50) epoch 0
             (map (\<lambda>loc. projr (lat_lon rect_ext loc))
                [location (JInt 200) (JInt 0), location (JInt 3) (JInt 3)]) =
           [outside_result 200 0 (epoch 0), outside_result 3 3 (epoch 1)]"
    by (simp add: location_def lat_lon_def float_limit_def run_defs)
  have b': "map_of [(''locations'', JArr [location (JInt 3) (JInt 3), location (JStr ''north'') (JInt 0)])]
     ''locations'' = Some (JArr [location (JInt 3) (JInt 3), location (JStr ''north'') (JInt 0)])"
    by simp
  have v: "lat_lon rect_ext (location (JStr ''north'') (JInt 0)) = Inl ValueError"
    by (simp add: location_def lat_lon_def rect_ext_def digits_value_def)
  have c': "find (\<lambda>loc. isl (lat_lon rect_ext loc)) [location (JInt 3) (JInt 3), location (JStr ''north'') (JInt 0)] =
     Some (location (JStr ''north'') (JInt 0))"
    using v by (simp add: location_def lat_lon_def float_limit_def)
  from batch_check_route_all_or_nothing [OF a b, of rect_ext epoch] c d
  have ok: "fst (batch_check_route rect_ext epoch (loaded rio 50)
          (JObj [(''locations'', JArr [location (JInt 200) (JInt 0), location (JInt 3) (JInt 3)])])) =
     (200, BatchBody 2 [outside_result 200 0 (epoch 0), outside_result 3 3 (epoch 1)])"
    by (simp add: loaded_def)
  from batch_check_route_all_or_nothing [OF a b', of rect_ext epoch] c' v
  have bad: "fst (batch_check_route rect_ext epoch (loaded rio 50)
          (JObj [(''locations'', JArr [location (JInt 3) (JInt 3), location (JStr ''north'') (JInt 0)])])) =
     (400, ErrorBody ''Invalid location format'')"
    by simp
  from a b c ok b' c' v bad show ?thesis by blast
qed

section \<open>The zone state under queries\<close>

text \<open>
  Claim C9. For every query (check, batch check, nearest) and every process state, the
  loaded \<^verbatim>\<open>PrisonGeofencing\<close> object (its raw geometries, safety geometries, attributes
  and the set of records) is the same after the query as before: a query only reads
  the clock.
\<close>

theorem frame_of_queries: "PRISONS_DATA (snd (handle e clock w req)) = PRISONS_DATA w"
proof (cases req)
  case (CheckLocation data)
  then show ?thesis
    by (auto simp: check_location_route_def uncaught_def Let_def
             split: option.splits sum.splits bool.splits exn.splits prod.splits)
next
  case (BatchCheck data)
  then show ?thesis
    by (auto simp: batch_check_route_def uncaught_def Let_def
             split: option.splits sum.splits bool.splits exn.splits prod.splits)
next
  case (NearestPrison data)
  then show ?thesis
    by (auto simp: nearest_prison_route_def uncaught_def Let_def
             split: option.splits sum.splits bool.splits exn.splits prod.splits)
qed


section \<open>Points on the boundary of a zone\<close>

text \<open>
  Claim C10, on the code. The claim is that a query point lying exactly on the boundary
  of a zone's safety geometry is reported as not inside that zone, also with a margin
  of 0. With the compound around the origin loaded and a margin of 0, its safety
  geometry is the compound itself and the point at longitude 0.01 and latitude 0 lies
  on its eastern side, so it is not contained in it. The code tests the point against
  the \<^verbatim>\<open>zone\<close> column in metric coordinates, a square reaching about a thousand metres
  from the origin, and \<^verbatim>\<open>check_location\<close> answers \<^verbatim>\<open>inside_prison = True\<close> with that zone.
\<close>

theorem boundary_point_reported_inside:
  "safety_geometry rect_ext one_compound 0 (rows one_compound ! 0) =
     rect (- (1 / 100)) (- (1 / 100)) (1 / 100) (1 / 100) \<and>
   rect_boundary (safety_geometry rect_ext one_compound 0 (rows one_compound ! 0)) (1 / 100) 0 \<and>
   \<not> contains rect_ext (safety_geometry rect_ext one_compound 0 (rows one_compound ! 0))
       (GPoint (1 / 100) 0) \<and>
   zone (rows (prisons_zones (init rect_ext one_compound 0)) ! 0) =
     rect (- 1000) (- 1000) 1000 1000 \<and>
   inside_prison (check_location rect_ext (init rect_ext one_compound 0) (epoch 0) 0 (1 / 100)) \<and>
   prison_info (check_location rect_ext (init rect_ext one_compound 0) (epoch 0) 0 (1 / 100)) =
     Some \<lparr>info_osm_id = VNum 7, info_name = VStr ''Compound'', info_operator = VStr ''N/A'',
           info_state = VStr ''RJ'', info_city = VStr ''N/A''\<rparr>"
  by (simp add: safety_geometry_def rect_boundary_def run_defs)

section \<open>Properties of the nearest-prison query\<close>

lemma series_min_None: "series_min ds = None \<longleftrightarrow> (\<forall>d. Some d \<notin> set ds)"
  by (induction ds rule: series_min.induct) (auto split: option.splits)

lemma series_min_Some:
  "series_min ds = Some m \<Longrightarrow> Some m \<in> set ds \<and> (\<forall>d. Some d \<in> set ds \<longrightarrow> m \<le> d)"
proof (induction ds arbitrary: m rule: series_min.induct)
  case 1
  then show ?case by simp
next
  case (2 ds)
  then show ?case by auto
next
  case (3 d ds)
  show ?case
  proof (cases "series_min ds")
    case None
    with 3 series_min_None [of ds] show ?thesis by auto
  next
    case (Some k)
    from 3(1) [OF Some] have k: "Some k \<in> set ds" "\<forall>d. Some d \<in> set ds \<longrightarrow> k \<le> d"
      by auto
    from 3(2) Some have m: "m = min d k" by simp
    show ?thesis
    proof (cases "d \<le> k")
      case True
      with m k show ?thesis by (auto simp: min_def)
    next
      case False
      with m k show ?thesis by (auto simp: min_def)
    qed
  qed
qed

lemma series_min_eq:
  assumes "Some d \<in> set ds" and "\<forall>d'. Some d' \<in> set ds \<longrightarrow> d \<le> d'"
  shows "series_min ds = Some d"
proof -
  from assms(1) series_min_None [of ds] obtain m where m: "series_min ds = Some m"
    by (cases "series_min ds") auto
  from series_min_Some [OF m] assms have "m \<le> d" "d \<le> m" by auto
  with m show ?thesis by simp
qed

lemma idxmin_eq:
  "i < length ds \<Longrightarrow> ds ! i = Some d \<Longrightarrow> \<forall>j<i. ds ! j \<noteq> Some d \<Longrightarrow> idxmin ds d = i"
proof (induction ds arbitrary: i)
  case Nil
  then show ?case by simp
next
  case (Cons x ds)
  show ?case
  proof (cases i)
    case 0
    with Cons.prems show ?thesis by simp
  next
    case (Suc k)
    with Cons.prems have "x \<noteq> Some d" by force
    moreover from Suc Cons.prems have "idxmin ds d = k"
      by (intro Cons.IH) auto
    ultimately show ?thesis using Suc by simp
  qed
qed

lemma get_nearest_prison_init:
  "get_nearest_prison e (init e file m) lat lon maxd =
     (let ds = map (\<lambda>r. distance e (to_crs e (crs file) 3857 (geometry r))
                         (to_crs e 4326 3857 (GPoint lon lat))) (rows file)
      in case series_min ds of
           None \<Rightarrow> Inr None
         | Some d \<Rightarrow>
             if d / 1000 \<le> maxd
             then if idxmin ds d < length (rows file)
                  then Inr (Some \<lparr>distance_km = py_round 3 (d / 1000),
                                  distance_meters = py_round 1 d,
                                  nearest_info = near_info_of (rows file ! idxmin ds d)\<rparr>)
                  else Inl IndexError
             else Inr None)"
proof -
  have g: "prisons_gdf (init e file m) = file"
    by (simp add: init_def create_prison_zones_def Let_def)
  show ?thesis
    by (simp add: get_nearest_prison_def rows_prisons_metric g Let_def comp_def split: option.splits)
qed

lemma py_round_close: "\<bar>py_round n x - x\<bar> \<le> 1 / (2 * 10 ^ n)"
proof -
  define s where "s = x * 10 ^ n"
  define y :: real where
    "y = (if s - of_int \<lfloor>s\<rfloor> < 1 / 2 then of_int \<lfloor>s\<rfloor>
          else if 1 / 2 < s - of_int \<lfloor>s\<rfloor> then of_int (\<lfloor>s\<rfloor> + 1)
          else if even \<lfloor>s\<rfloor> then of_int \<lfloor>s\<rfloor> else of_int (\<lfloor>s\<rfloor> + 1))"
  have fl: "of_int \<lfloor>s\<rfloor> \<le> s" "s < of_int \<lfloor>s\<rfloor> + 1"
    by linarith+
  then have near: "\<bar>y - s\<bar> \<le> 1 / 2"
    unfolding y_def by (auto simp: abs_le_iff)
  have p: "py_round n x = y / 10 ^ n"
    by (simp add: py_round_def Let_def s_def y_def)
  have "py_round n x - x = (y - s) / 10 ^ n"
    by (simp add: p s_def diff_divide_distrib)
  then have "\<bar>py_round n x - x\<bar> = \<bar>y - s\<bar> / 10 ^ n"
    by (simp add: abs_divide)
  also have "\<dots> \<le> (1 / 2) / 10 ^ n"
    using near by (intro divide_right_mono) simp_all
  finally show ?thesis by simp
qed

lemma get_nearest_prison_raw:
  "get_nearest_prison e (init e file m) lat lon maxd =
     (let ds = map (raw_distance e file lat lon) (rows file)
      in case series_min ds of
           None \<Rightarrow> Inr None
         | Some d \<Rightarrow>
             if d / 1000 \<le> maxd
             then if idxmin ds d < length (rows file)
                  then Inr (Some \<lparr>distance_km = py_round 3 (d / 1000),
                                  distance_meters = py_round 1 d,
                                  nearest_info = near_info_of (rows file ! idxmin ds d)\<rparr>)
                  else Inl IndexError
             else Inr None)"
proof -
  have ds: "map (raw_distance e file lat lon) (rows file) =
            map (\<lambda>r. distance e (to_crs e (crs file) 3857 (geometry r))
                         (to_crs e 4326 3857 (GPoint lon lat))) (rows file)"
    by (simp add: raw_distance_def)
  show ?thesis
    unfolding ds by (rule get_nearest_prison_init)
qed

text \<open>
  Claim C5. For every query point and positive \<open>max_distance_km\<close>, the nearest query
  measures the planar distance from the query point to each zone's raw geometry in
  the metric projection; the safety geometry plays no part, so the answer is the same
  for every margin. If no zone has a distance, the answer is none. Otherwise, with \<open>d\<close> the smallest distance and
  \<open>i\<close> the first row at that distance: if \<open>d\<close> in kilometres is within
  \<open>max_distance_km\<close>, the answer carries the id and attributes of row \<open>i\<close> and the
  distance in kilometres, given to the metre (three decimals, so within half a metre
  of \<open>d\<close>); if not, the answer is none.
\<close>

theorem get_nearest_prison_nearest:
  assumes "0 < max_distance_km"
  shows
    "get_nearest_prison e (init e file m) lat lon max_distance_km =
       get_nearest_prison e (init e file m') lat lon max_distance_km \<and>
     ((\<forall>r \<in> set (rows file). raw_distance e file lat lon r = None) \<longrightarrow>
        get_nearest_prison e (init e file m) lat lon max_distance_km = Inr None) \<and>
     (i < length (rows file) \<and> raw_distance e file lat lon (rows file ! i) = Some d \<and>
      (\<forall>j < length (rows file). \<forall>d'.
          raw_distance e file lat lon (rows file ! j) = Some d' \<longrightarrow> d \<le> d') \<and>
      (\<forall>j < i. raw_distance e file lat lon (rows file ! j) \<noteq> Some d) \<longrightarrow>
        (if d / 1000 \<le> max_distance_km
         then get_nearest_prison e (init e file m) lat lon max_distance_km =
                Inr (Some
                  \<lparr>distance_km = py_round 3 (d / 1000),
                   distance_meters = py_round 1 d,
                   nearest_info =
                     \<lparr>near_osm_id = osm_id (rows file ! i),
                      near_name = (case map_of (columns (rows file ! i)) ''name'' of
                                     Some v \<Rightarrow> v | None \<Rightarrow> VStr ''N/A''),
                      near_operator = (case map_of (columns (rows file ! i)) ''operator'' of
                                     Some v \<Rightarrow> v | None \<Rightarrow> VStr ''N/A''),
                      near_state = (case map_of (columns (rows file ! i)) ''addr:state'' of
                                     Some v \<Rightarrow> v | None \<Rightarrow> VStr ''N/A'')\<rparr>\<rparr>) \<and>
              \<bar>py_round 3 (d / 1000) - d / 1000\<bar> \<le> 1 / 2000
         else get_nearest_prison e (init e file m) lat lon max_distance_km = Inr None))"
proof (intro conjI impI)
  show "get_nearest_prison e (init e file m) lat lon max_distance_km =
       get_nearest_prison e (init e file m') lat lon max_distance_km"
    by (simp only: get_nearest_prison_raw)
next
  assume none: "\<forall>r \<in> set (rows file). raw_distance e file lat lon r = None"
  then have "series_min (map (raw_distance e file lat lon) (rows file)) = None"
    by (auto simp: series_min_None)
  then show "get_nearest_prison e (init e file m) lat lon max_distance_km = Inr None"
    by (simp add: get_nearest_prison_raw)
next
  define ds where "ds = map (raw_distance e file lat lon) (rows file)"
  assume h: "i < length (rows file) \<and> raw_distance e file lat lon (rows file ! i) = Some d \<and>
      (\<forall>j < length (rows file). \<forall>d'.
          raw_distance e file lat lon (rows file ! j) = Some d' \<longrightarrow> d \<le> d') \<and>
      (\<forall>j < i. raw_distance e file lat lon (rows file ! j) \<noteq> Some d)"
  then have at: "i < length ds" "ds ! i = Some d"
    by (simp_all add: ds_def)
  then have mem: "Some d \<in> set ds"
    by (metis nth_mem)
  have low: "\<forall>d'. Some d' \<in> set ds \<longrightarrow> d \<le> d'"
  proof (intro allI impI)
    fix d' assume "Some d' \<in> set ds"
    then obtain j where "j < length ds" "ds ! j = Some d'"
      by (auto simp: in_set_conv_nth)
    with h show "d \<le> d'" by (simp add: ds_def)
  qed
  have first: "\<forall>j<i. ds ! j \<noteq> Some d"
    using h by (simp add: ds_def)
  have smin: "series_min ds = Some d"
    by (rule series_min_eq [OF mem low])
  have imin: "idxmin ds d = i"
    by (rule idxmin_eq [OF at first])
  have close: "\<bar>py_round 3 (d / 1000) - d / 1000\<bar> \<le> 1 / 2000"
    using py_round_close [of 3 "d / 1000"] by simp
  show "if d / 1000 \<le> max_distance_km
         then get_nearest_prison e (init e file m) lat lon max_distance_km =
                Inr (Some
                  \<lparr>distance_km = py_round 3 (d / 1000),
                   distance_meters = py_round 1 d,
                   nearest_info =
                     \<lparr>near_osm_id = osm_id (rows file ! i),
                      near_name = (case map_of (columns (rows file ! i)) ''name'' of
                                     Some v \<Rightarrow> v | None \<Rightarrow> VStr ''N/A''),
                      near_operator = (case map_of (columns (rows file ! i)) ''operator'' of
                                     Some v \<Rightarrow> v | None \<Rightarrow> VStr ''N/A''),
                      near_state = (case map_of (columns (rows file ! i)) ''addr:state'' of
                                     Some v \<Rightarrow> v | None \<Rightarrow> VStr ''N/A'')\<rparr>\<rparr>) \<and>
              \<bar>py_round 3 (d / 1000) - d / 1000\<bar> \<le> 1 / 2000
         else get_nearest_prison e (init e file m) lat lon max_distance_km = Inr None"
    using smin imin h close
    by (simp add: get_nearest_prison_raw ds_def [symmetric] Let_def near_info_of_def row_get_def)
qed

theorem get_nearest_prison_nearest_witness:
  "(0::real) < 5 \<and>
   raw_distance rect_ext no_geometry (- (2285 / 100)) (- (4346 / 100)) (rows no_geometry ! 0) = None \<and>
   get_nearest_prison rect_ext (init rect_ext no_geometry 50) (- (2285 / 100)) (- (4346 / 100)) 5 =
     Inr None \<and>
   (1::nat) < length (rows three_nodes) \<and>
   raw_distance rect_ext three_nodes (- (2285 / 100)) (- (4346 / 100)) (rows three_nodes ! 0) = Some 5000 \<and>
   raw_distance rect_ext three_nodes (- (2285 / 100)) (- (4346 / 100)) (rows three_nodes ! 1) = Some 1000 \<and>
   raw_distance rect_ext three_nodes (- (2285 / 100)) (- (4346 / 100)) (rows three_nodes ! 2) = Some 1000 \<and>
   get_nearest_prison rect_ext (init rect_ext three_nodes 50) (- (2285 / 100)) (- (4346 / 100)) 5 =
     Inr (Some \<lparr>distance_km = 1, distance_meters = 1000,
                nearest_info = \<lparr>near_osm_id = VNum 2, near_name = VStr ''Ary Franco'',
                                near_operator = VStr ''N/A'', near_state = VStr ''N/A''\<rparr>\<rparr>) \<and>
   get_nearest_prison rect_ext (init rect_ext three_nodes 50) (- (2285 / 100)) (- (4346 / 100)) (1 / 2) =
     Inr None"
proof -
  have pos: "(0::real) < 5" "(0::real) < 1 / 2"
    by simp_all
  have n0: "raw_distance rect_ext no_geometry (- (2285 / 100)) (- (4346 / 100)) (rows no_geometry ! 0) = None"
    by (simp add: raw_distance_def run_defs)
  have nall: "\<forall>r \<in> set (rows no_geometry).
      raw_distance rect_ext no_geometry (- (2285 / 100)) (- (4346 / 100)) r = None"
    by (simp add: raw_distance_def run_defs)
  have len: "(1::nat) < length (rows three_nodes)"
    by (simp add: three_nodes_def)
  have d0: "raw_distance rect_ext three_nodes (- (2285 / 100)) (- (4346 / 100)) (rows three_nodes ! 0) = Some 5000"
    by (simp add: raw_distance_def run_defs hypot_def)
  have d1: "raw_distance rect_ext three_nodes (- (2285 / 100)) (- (4346 / 100)) (rows three_nodes ! 1) = Some 1000"
    by (simp add: raw_distance_def run_defs hypot_def)
  have d2: "raw_distance rect_ext three_nodes (- (2285 / 100)) (- (4346 / 100)) (rows three_nodes ! 2) = Some 1000"
    by (simp add: raw_distance_def run_defs hypot_def)
  have l3: "length (rows three_nodes) = 3"
    by (simp add: three_nodes_def)
  have least: "\<forall>j < length (rows three_nodes). \<forall>d'.
      raw_distance rect_ext three_nodes (- (2285 / 100)) (- (4346 / 100)) (rows three_nodes ! j) = Some d'
        \<longrightarrow> 1000 \<le> d'"
  proof (intro allI impI)
    fix j d'
    assume j: "j < length (rows three_nodes)"
      and e: "raw_distance rect_ext three_nodes (- (2285 / 100)) (- (4346 / 100)) (rows three_nodes ! j) = Some d'"
    from j l3 have "j = 0 \<or> j = 1 \<or> j = 2" by arith
    with e d0 d1 d2 show "1000 \<le> d'" by auto
  qed
  have first: "\<forall>j < (1::nat).
      raw_distance rect_ext three_nodes (- (2285 / 100)) (- (4346 / 100)) (rows three_nodes ! j) \<noteq> Some 1000"
    using d0 by simp
  have r3: "py_round 3 1 = 1" "py_round (Suc 0) 1000 = 1000"
    by (simp_all add: py_round_def Let_def)
  have cols: "osm_id (rows three_nodes ! Suc 0) = VNum 2"
    "columns (rows three_nodes ! Suc 0) = [(''name'', VStr ''Ary Franco'')]"
    by (simp_all add: three_nodes_def)
  from get_nearest_prison_nearest [OF pos(1), of rect_ext no_geometry 50 "- (2285 / 100)" "- (4346 / 100)"] nall
  have none: "get_nearest_prison rect_ext (init rect_ext no_geometry 50) (- (2285 / 100)) (- (4346 / 100)) 5 =
     Inr None"
    by blast
  from get_nearest_prison_nearest [OF pos(1), of rect_ext three_nodes 50 "- (2285 / 100)" "- (4346 / 100)" 50 1 1000]
    len d1 least first
  have near: "get_nearest_prison rect_ext (init rect_ext three_nodes 50) (- (2285 / 100)) (- (4346 / 100)) 5 =
     Inr (Some \<lparr>distance_km = 1, distance_meters = 1000,
                nearest_info = \<lparr>near_osm_id = VNum 2, near_name = VStr ''Ary Franco'',
                                near_operator = VStr ''N/A'', near_state = VStr ''N/A''\<rparr>\<rparr>)"
    by (simp add: r3 cols)
  from get_nearest_prison_nearest [OF pos(2), of rect_ext three_nodes 50 "- (2285 / 100)" "- (4346 / 100)" 50 1 1000]
    len d1 least first
  have far: "get_nearest_prison rect_ext (init rect_ext three_nodes 50) (- (2285 / 100)) (- (4346 / 100)) (1 / 2) =
     Inr None"
    by simp
  from pos n0 none len d0 d1 d2 near far show ?thesis by blast
qed

end
